theory Spec2Isabelle
  imports Complex_Main
begin

section \<open>Common types\<close>

text \<open>
  JavaScript numbers that may carry a fraction (energy amounts, multipliers) are modelled as
  exact rationals; the rounding of IEEE doubles is not modelled. Columns that the schema
  declares \<open>Int\<close> (levels, experience, stored energy) are integers. A \<open>Date\<close> is its
  \<open>getTime()\<close> value, the milliseconds since the epoch; every \<open>new Date()\<close> and
  \<open>Date.now()\<close> of one call reads the parameter \<open>now\<close>. \<open>throw new Error(msg)\<close>
  is the value \<open>Inl (Error msg)\<close>.
\<close>

type_synonym date = int

datatype error = Error string

section \<open>EnergyManager\<close>

definition baseRegenerationRate :: rat where
  "baseRegenerationRate = 1"

definition baseMaxEnergy :: rat where
  "baseMaxEnergy = 100"

definition energyPerLevel :: rat where
  "energyPerLevel = 5"

definition maxOverflowPercentage :: rat where
  "maxOverflowPercentage = 1 / 2"

definition defaultOverflowDuration :: int where
  "defaultOverflowDuration = 60"

definition recoveryZoneMultiplier :: rat where
  "recoveryZoneMultiplier = 5 / 2"

text \<open>\<open>getEffectiveEnergyCap(currentEnergy, maxEnergy, overflowExpiry = null)\<close>.\<close>

definition getEffectiveEnergyCap :: "date \<Rightarrow> rat \<Rightarrow> rat \<Rightarrow> date option \<Rightarrow> error + rat" where
  "getEffectiveEnergyCap now currentEnergy maxEnergy overflowExpiry =
     (if maxEnergy \<le> 0 then Inl (Error ''Maximum energy must be positive'')
      else if overflowExpiry = None \<or> now > the overflowExpiry
        then Inr (max currentEnergy maxEnergy)
      else let overflowCap = maxEnergy * (1 + maxOverflowPercentage)
           in Inr (max currentEnergy overflowCap))"

text \<open>
  \<open>calculateRegeneratedEnergy(currentEnergy, maxEnergy, lastEnergyUpdate,
  regenMultiplier = 1.0, inRecoveryZone = false)\<close>. The function has no overflow-expiry
  parameter and calls \<open>getEffectiveEnergyCap\<close> with two arguments, so the third takes its
  default \<open>null\<close>.
\<close>

definition calculateRegeneratedEnergy ::
  "date \<Rightarrow> rat \<Rightarrow> rat \<Rightarrow> date \<Rightarrow> rat \<Rightarrow> bool \<Rightarrow> error + rat" where
  "calculateRegeneratedEnergy now currentEnergy maxEnergy lastEnergyUpdate regenMultiplier inRecoveryZone =
     (if currentEnergy < 0 then Inl (Error ''Current energy cannot be negative'')
      else if maxEnergy \<le> 0 then Inl (Error ''Maximum energy must be positive'')
      else if regenMultiplier < 0 then Inl (Error ''Regeneration multiplier cannot be negative'')
      else case getEffectiveEnergyCap now currentEnergy maxEnergy None of
        Inl e \<Rightarrow> Inl e
      | Inr effectiveCap \<Rightarrow>
          if currentEnergy \<ge> effectiveCap then Inr currentEnergy
          else let minutesPassed = max 0 (of_int (now - lastEnergyUpdate) / (1000 * 60));
                   effectiveMultiplier =
                     (if inRecoveryZone then regenMultiplier * recoveryZoneMultiplier
                      else regenMultiplier);
                   energyGained =
                     of_int \<lfloor>minutesPassed * baseRegenerationRate * effectiveMultiplier\<rfloor>;
                   newEnergy = min (currentEnergy + energyGained) effectiveCap
               in Inr newEnergy)"

record EnergyBoostResult =
  energy :: rat
  overflowExpiry :: "date option"

text \<open>
  \<open>applyEnergyBoost(currentEnergy, maxEnergy, boostAmount, allowOverflow = true,
  overflowDuration = 60)\<close>. The duration is a whole number of minutes;
  \<open>setMinutes(getMinutes() + overflowDuration)\<close> moves the date by that many minutes.
\<close>

definition applyEnergyBoost ::
  "date \<Rightarrow> rat \<Rightarrow> rat \<Rightarrow> rat \<Rightarrow> bool \<Rightarrow> int \<Rightarrow> error + EnergyBoostResult" where
  "applyEnergyBoost now currentEnergy maxEnergy boostAmount allowOverflow overflowDuration =
     (if currentEnergy < 0 then Inl (Error ''Current energy cannot be negative'')
      else if maxEnergy \<le> 0 then Inl (Error ''Maximum energy must be positive'')
      else if boostAmount \<le> 0 then Inl (Error ''Boost amount must be positive'')
      else if overflowDuration < 0 then Inl (Error ''Overflow duration cannot be negative'')
      else let maxPossibleEnergy =
                 (if allowOverflow then maxEnergy * (1 + maxOverflowPercentage) else maxEnergy);
               newEnergy = min (currentEnergy + boostAmount) maxPossibleEnergy
           in Inr \<lparr>energy = newEnergy,
                   overflowExpiry =
                     (if newEnergy > maxEnergy then Some (now + overflowDuration * 60000)
                      else None)\<rparr>)"

section \<open>ExperienceCalculator\<close>

text \<open>A number that may be \<open>Infinity\<close>: the experience needed at the maximum level.\<close>

datatype xp = Finite int | Infinity

fun xp_add :: "xp \<Rightarrow> xp \<Rightarrow> xp" where
  "xp_add (Finite a) (Finite b) = Finite (a + b)"
| "xp_add _ _ = Infinity"

fun xp_ge :: "int \<Rightarrow> xp \<Rightarrow> bool" where
  "xp_ge x (Finite n) = (x \<ge> n)"
| "xp_ge x Infinity = False"

definition baseXP :: int where
  "baseXP = 100"

definition xpScalingFactor :: rat where
  "xpScalingFactor = 6 / 5"

definition maxLevel :: int where
  "maxLevel = 100"

definition catchupThreshold :: rat where
  "catchupThreshold = 5"

definition maxCatchupMultiplier :: rat where
  "maxCatchupMultiplier = 3 / 2"

text \<open>\<open>Math.pow\<close> with an integer exponent.\<close>

definition pow :: "rat \<Rightarrow> int \<Rightarrow> rat" where
  "pow x n = (if 0 \<le> n then x ^ nat n else 1 / x ^ nat (- n))"

text \<open>The finite branch of \<open>getXpRequiredForNextLevel\<close>.\<close>

definition xpRequiredBelowMax :: "int \<Rightarrow> int" where
  "xpRequiredBelowMax currentLevel = \<lfloor>of_int baseXP * pow xpScalingFactor (currentLevel - 1)\<rfloor>"

definition getXpRequiredForNextLevel :: "int \<Rightarrow> xp" where
  "getXpRequiredForNextLevel currentLevel =
     (if currentLevel \<ge> maxLevel then Infinity else Finite (xpRequiredBelowMax currentLevel))"

text \<open>
  \<open>getXpForLevel\<close>: the loop index runs over \<open>1 \<le> i < level \<le> maxLevel\<close>, where
  \<open>getXpRequiredForNextLevel\<close> takes its finite branch, so the sum is an integer and
  \<open>Math.floor\<close> leaves it as it is.
\<close>

definition getXpForLevel :: "int \<Rightarrow> int" where
  "getXpForLevel level =
     (if level \<le> 1 then 0
      else let level' = (if level > maxLevel then maxLevel else level)
           in fold (\<lambda>i totalXp. totalXp + xpRequiredBelowMax i) [1 .. level' - 1] 0)"

function getLevelFromXp_loop :: "int \<Rightarrow> int \<Rightarrow> xp \<Rightarrow> int" where
  "getLevelFromXp_loop xpv level totalXpNeeded =
     (if xp_ge xpv totalXpNeeded \<and> level < maxLevel
      then getLevelFromXp_loop xpv (level + 1)
             (xp_add totalXpNeeded (getXpRequiredForNextLevel (level + 1)))
      else level)"
  by pat_completeness auto
termination
  by (relation "measure (\<lambda>(xpv, level, totalXpNeeded). nat (maxLevel - level))") auto

declare getLevelFromXp_loop.simps [simp del]

definition getLevelFromXp :: "int \<Rightarrow> int" where
  "getLevelFromXp xpv =
     (if xpv \<le> 0 then 1
      else getLevelFromXp_loop xpv 1 (getXpRequiredForNextLevel 1))"

text \<open>
  \<open>getRemainingXp(totalXp)\<close>; the display ratio \<open>progressPercent\<close> is left out.
\<close>

record RemainingXp =
  currentLevel :: int
  currentXp :: int
  nextLevelXp :: xp

definition getRemainingXp :: "int \<Rightarrow> RemainingXp" where
  "getRemainingXp totalXp =
     (let currentLevel = getLevelFromXp totalXp;
          xpStartOfLevel = getXpForLevel currentLevel;
          xpIntoLevel = totalXp - xpStartOfLevel;
          xpRequiredForNextLevel = getXpRequiredForNextLevel currentLevel
      in \<lparr>currentLevel = currentLevel, currentXp = xpIntoLevel,
           nextLevelXp = xpRequiredForNextLevel\<rparr>)"

text \<open>
  The in-memory events of \<open>ExperienceCalculator\<close>. \<open>getActiveXpMultiplier\<close> first drops
  the events that have ended and then multiplies the multipliers of those that apply.
\<close>

record XpMultiplierEvent =
  ev_id :: string
  ev_multiplier :: rat
  ev_startTime :: date
  ev_endTime :: date
  ev_userIds :: "string list option"
  ev_zoneIds :: "string list option"

definition activeMultipliers :: "date \<Rightarrow> XpMultiplierEvent list \<Rightarrow> XpMultiplierEvent list" where
  "activeMultipliers now evs = filter (\<lambda>event. ev_endTime event > now) evs"

definition eventApplies :: "string option \<Rightarrow> string option \<Rightarrow> XpMultiplierEvent \<Rightarrow> bool" where
  "eventApplies userId zoneId event =
     (let appliesToUser =
            (case ev_userIds event of None \<Rightarrow> True
             | Some ids \<Rightarrow> (case userId of None \<Rightarrow> False | Some u \<Rightarrow> u \<in> set ids));
          appliesToZone =
            (case ev_zoneIds event of None \<Rightarrow> True
             | Some ids \<Rightarrow> (case zoneId of None \<Rightarrow> False | Some z \<Rightarrow> z \<in> set ids))
      in (userId = None \<or> appliesToUser) \<and> (zoneId = None \<or> appliesToZone))"

definition getActiveXpMultiplier ::
  "date \<Rightarrow> XpMultiplierEvent list \<Rightarrow> string option \<Rightarrow> string option \<Rightarrow> rat" where
  "getActiveXpMultiplier now evs userId zoneId =
     (let activeEvents = activeMultipliers now evs
      in if length activeEvents = 0 then 1
         else fold (\<lambda>event multiplier.
                      if eventApplies userId zoneId event then multiplier * ev_multiplier event
                      else multiplier) activeEvents 1)"

text \<open>\<open>getCatchupMultiplier(userLevel)\<close>, with the static \<open>_averageUserLevel\<close> as a parameter.\<close>

definition getCatchupMultiplier :: "rat \<Rightarrow> rat \<Rightarrow> rat" where
  "getCatchupMultiplier averageUserLevel userLevel =
     (if userLevel \<ge> averageUserLevel then 1
      else let levelDifference = min (averageUserLevel - userLevel) catchupThreshold;
               catchupBonus = (levelDifference / catchupThreshold) * (maxCatchupMultiplier - 1)
           in 1 + catchupBonus)"

section \<open>The database\<close>

text \<open>
  The tables the modelled functions read or write, each a list of rows, with the columns
  those functions touch. \<open>id\<close> is the primary key of every table. \<open>User.updatedAt\<close> is
  declared \<open>@updatedAt\<close>: every update of a row stamps it with the current time.
\<close>

datatype RewardType = CURRENCY | ITEM | ENERGY | MAX_ENERGY | TITLE | BADGE | SPECIAL

record User =
  uid :: string
  level :: int
  experience :: int
  currentEnergy :: int
  maxEnergy :: int
  updatedAt :: date
  prestigeLevel :: int
  prestigePoints :: int
  totalLifetimeExperience :: int

text \<open>The \<open>MilestoneReward\<close> interface, and the table row that extends it.\<close>

record MilestoneReward =
  reward_id :: string
  rewardType :: RewardType
  description :: string
  amount :: "int option"
  itemId :: "string option"
  titleId :: "string option"
  badgeId :: "string option"

record MilestoneRewardRow = MilestoneReward +
  userId :: string
  rewardLevel :: int
  claimed :: bool
  claimedAt :: "date option"

text \<open>
  A row of \<open>XpMultiplierEvent\<close>. The schema declares \<open>userIds\<close> and \<open>zoneIds\<close> as the
  optional JSON string array of the user ids and zone ids the event applies to.
\<close>

record XpMultiplierEventRow =
  eventId :: string
  multiplier :: rat
  startTime :: date
  endTime :: date
  userIds :: "string option"
  zoneIds :: "string option"

record UserEnergyState =
  es_userId :: string
  es_currentEnergy :: int
  es_maxEnergy :: int
  passiveMaxEnergyBonus :: rat

record Database =
  userTable :: "User list"
  milestoneRewardTable :: "MilestoneRewardRow list"
  xpMultiplierEventTable :: "XpMultiplierEventRow list"
  userEnergyStateTable :: "UserEnergyState list"

text \<open>\<open>db.user.findUnique({ where: { id } })\<close>\<close>

definition getUserById :: "Database \<Rightarrow> string \<Rightarrow> User option" where
  "getUserById db userId' = find (\<lambda>u. uid u = userId') (userTable db)"

text \<open>\<open>db.user.update({ where: { id }, data })\<close>: fails when no row has the id.\<close>

definition user_update ::
  "date \<Rightarrow> string \<Rightarrow> (User \<Rightarrow> User) \<Rightarrow> Database \<Rightarrow> (error + User) \<times> Database" where
  "user_update now userId' f db =
     (case getUserById db userId' of
        None \<Rightarrow> (Inl (Error ''Record to update not found.''), db)
      | Some u \<Rightarrow>
          let u' = (f u)\<lparr>updatedAt := now\<rparr>
          in (Inr u', db\<lparr>userTable := map (\<lambda>r. if uid r = userId' then u' else r) (userTable db)\<rparr>))"

text \<open>
  \<open>db.milestoneReward.create({ data })\<close>: the primary key rejects a second row with an
  id, and the foreign key \<open>MilestoneReward_userId_fkey\<close> rejects a row whose user is not
  in the user table.
\<close>

definition milestoneReward_create ::
  "MilestoneRewardRow \<Rightarrow> Database \<Rightarrow> (error + MilestoneRewardRow) \<times> Database" where
  "milestoneReward_create row db =
     (if \<exists>r \<in> set (milestoneRewardTable db). reward_id r = reward_id row
      then (Inl (Error ''Unique constraint failed on the fields: (id)''), db)
      else if getUserById db (userId row) = None
      then (Inl (Error ''Foreign key constraint failed on the field: MilestoneReward_userId_fkey''), db)
      else (Inr row, db\<lparr>milestoneRewardTable := milestoneRewardTable db @ [row]\<rparr>))"

text \<open>A number inside a template literal.\<close>

fun showNat :: "nat \<Rightarrow> string" where
  "showNat n =
     (if n < 10 then [char_of (48 + n)]
      else showNat (n div 10) @ [char_of (48 + n mod 10)])"

declare showNat.simps [simp del]

definition showInt :: "int \<Rightarrow> string" where
  "showInt i = (if i < 0 then CHR ''-'' # showNat (nat (- i)) else showNat (nat i))"

section \<open>UserService: energy\<close>

text \<open>
  \<open>consumeEnergy(userId, amount)\<close>. The amount is whole, as the column it is subtracted
  from is; the regenerated energy of whole inputs is whole, so storing it in the
  \<open>Int\<close> column changes nothing.
\<close>

definition consumeEnergy :: "date \<Rightarrow> Database \<Rightarrow> string \<Rightarrow> int \<Rightarrow> (error + User) \<times> Database" where
  "consumeEnergy now db userId' amount' =
     (if amount' \<le> 0 then (Inl (Error ''Amount must be positive''), db)
      else case getUserById db userId' of
        None \<Rightarrow> (Inl (Error (''User with id '' @ userId' @ '' not found'')), db)
      | Some user \<Rightarrow>
          (case calculateRegeneratedEnergy now (of_int (currentEnergy user))
                  (of_int (maxEnergy user)) (updatedAt user) 1 False of
             Inl e \<Rightarrow> (Inl e, db)
           | Inr currentEnergy' \<Rightarrow>
               if currentEnergy' < of_int amount' then (Inl (Error ''Insufficient energy''), db)
               else user_update now userId'
                      (\<lambda>u. u\<lparr>currentEnergy := \<lfloor>currentEnergy' - of_int amount'\<rfloor>\<rparr>) db))"

text \<open>\<open>regenerateEnergy(userId, amount)\<close>\<close>

definition regenerateEnergy :: "date \<Rightarrow> Database \<Rightarrow> string \<Rightarrow> int \<Rightarrow> (error + User) \<times> Database" where
  "regenerateEnergy now db userId' amount' =
     (if amount' < 0 then (Inl (Error ''Amount cannot be negative''), db)
      else case getUserById db userId' of
        None \<Rightarrow> (Inl (Error (''User with id '' @ userId' @ '' not found'')), db)
      | Some user \<Rightarrow>
          (case calculateRegeneratedEnergy now (of_int (currentEnergy user))
                  (of_int (maxEnergy user)) (updatedAt user) 1 False of
             Inl e \<Rightarrow> (Inl e, db)
           | Inr currentEnergy' \<Rightarrow>
               let newEnergy = min (currentEnergy' + of_int amount') (of_int (maxEnergy user))
               in user_update now userId' (\<lambda>u. u\<lparr>currentEnergy := \<lfloor>newEnergy\<rfloor>\<rparr>) db))"

section \<open>UserService: experience multipliers\<close>

record XpMultipliers =
  eventMultiplier :: rat
  catchupMultiplier :: rat
  totalMultiplier :: rat

text \<open>
  \<open>getCurrentXpMultipliers(userId)\<close>. The server average is read by raw SQL from a table
  \<open>GameStats\<close> that no migration of the repository creates, so the value that
  \<open>getAverageUserLevel\<close> returns is the parameter \<open>avgLevel\<close>. The conditional around
  \<open>Math.max(...)\<close> is the case on the list of multipliers; \<open>Math.max\<close> of a non-empty
  list folds \<open>max\<close> over it.
\<close>

definition getCurrentXpMultipliers :: "date \<Rightarrow> rat \<Rightarrow> Database \<Rightarrow> string \<Rightarrow> XpMultipliers" where
  "getCurrentXpMultipliers now avgLevel db userId' =
     (let activeEvents =
            filter (\<lambda>event. startTime event \<le> now \<and> endTime event \<ge> now) (xpMultiplierEventTable db);
          eventMultiplier' =
            (case map multiplier activeEvents of
               [] \<Rightarrow> 1
             | m # ms \<Rightarrow> fold max ms m);
          catchupMultiplier' =
            (case getUserById db userId' of
               None \<Rightarrow> 1
             | Some user \<Rightarrow>
                 let levelDifference = avgLevel - of_int (level user)
                 in if levelDifference > 5 then min (1 + levelDifference * (5 / 100)) (3 / 2)
                    else 1);
          totalMultiplier' = eventMultiplier' * catchupMultiplier'
      in \<lparr>eventMultiplier = eventMultiplier', catchupMultiplier = catchupMultiplier',
           totalMultiplier = totalMultiplier'\<rparr>)"

section \<open>UserService: milestone rewards\<close>

text \<open>The table \<open>milestones\<close> inside \<open>processMilestoneRewards\<close>; a level without an entry gives \<open>[]\<close>.\<close>

definition milestones :: "string \<Rightarrow> int \<Rightarrow> MilestoneReward list" where
  "milestones userId' lvl =
     (if lvl = 5 then
        [\<lparr>reward_id = ''level-5-currency-'' @ userId', rewardType = CURRENCY,
          description = ''Level 5 achievement: 500 currency bonus'', amount = Some 500,
          itemId = None, titleId = None, badgeId = None\<rparr>]
      else if lvl = 10 then
        [\<lparr>reward_id = ''level-10-energy-'' @ userId', rewardType = MAX_ENERGY,
          description = ''Level 10 achievement: +10 maximum energy'', amount = Some 10,
          itemId = None, titleId = None, badgeId = None\<rparr>]
      else if lvl = 25 then
        [\<lparr>reward_id = ''level-25-title-'' @ userId', rewardType = TITLE,
          description = ''Level 25 achievement: 'Adventurer' title'', amount = Some 0,
          itemId = None, titleId = Some ''title_adventurer'', badgeId = None\<rparr>]
      else if lvl = 50 then
        [\<lparr>reward_id = ''level-50-currency-'' @ userId', rewardType = CURRENCY,
          description = ''Level 50 achievement: 5000 currency bonus'', amount = Some 5000,
          itemId = None, titleId = None, badgeId = None\<rparr>,
         \<lparr>reward_id = ''level-50-energy-'' @ userId', rewardType = MAX_ENERGY,
          description = ''Level 50 achievement: +20 maximum energy'', amount = Some 20,
          itemId = None, titleId = None, badgeId = None\<rparr>,
         \<lparr>reward_id = ''level-50-title-'' @ userId', rewardType = TITLE,
          description = ''Level 50 achievement: 'Veteran' title'', amount = Some 0,
          itemId = None, titleId = Some ''title_veteran'', badgeId = None\<rparr>]
      else [])"

text \<open>
  The loop that stores the rewards, and the \<open>data\<close> object of its \<open>create\<close>. A failing
  \<open>create\<close> ends the loop and keeps the rows already stored.
\<close>

definition rewardRow :: "string \<Rightarrow> int \<Rightarrow> MilestoneReward \<Rightarrow> MilestoneRewardRow" where
  "rewardRow userId' lvl reward =
     \<lparr>reward_id = reward_id reward, rewardType = rewardType reward,
      description = description reward, amount = amount reward,
      itemId = itemId reward, titleId = titleId reward, badgeId = badgeId reward,
      userId = userId', rewardLevel = lvl, claimed = False, claimedAt = None\<rparr>"

fun createRewards ::
  "string \<Rightarrow> int \<Rightarrow> MilestoneReward list \<Rightarrow> Database \<Rightarrow> (error + unit) \<times> Database" where
  "createRewards userId' lvl [] db = (Inr (), db)"
| "createRewards userId' lvl (reward # rest) db =
     (case milestoneReward_create (rewardRow userId' lvl reward) db of
        (Inl e, db') \<Rightarrow> (Inl e, db')
      | (Inr _, db') \<Rightarrow> createRewards userId' lvl rest db')"

definition processMilestoneRewards ::
  "Database \<Rightarrow> string \<Rightarrow> int \<Rightarrow> (error + MilestoneReward list) \<times> Database" where
  "processMilestoneRewards db userId' lvl =
     (let existingRewards =
            filter (\<lambda>r. userId r = userId' \<and> rewardLevel r = lvl \<and> \<not> claimed r)
              (milestoneRewardTable db)
      in if length existingRewards > 0
         then (Inr (map (\<lambda>reward.
                       \<lparr>reward_id = reward_id reward, rewardType = rewardType reward,
                        description = description reward,
                        amount = Some (case amount reward of None \<Rightarrow> 0 | Some a \<Rightarrow> a),
                        itemId = (case itemId reward of None \<Rightarrow> None
                                  | Some i \<Rightarrow> if i = [] then None else Some i),
                        titleId = None, badgeId = None\<rparr>) existingRewards), db)
         else let rewards = milestones userId' lvl
              in case createRewards userId' lvl rewards db of
                   (Inl e, db') \<Rightarrow> (Inl e, db')
                 | (Inr _, db') \<Rightarrow> (Inr rewards, db'))"

section \<open>UserService: experience\<close>

lemma xpRequiredBelowMax_ge: "1 \<le> l \<Longrightarrow> 100 \<le> xpRequiredBelowMax l"
proof -
  assume l: "1 \<le> l"
  have "(1::rat) \<le> (6 / 5) ^ nat (l - 1)" by (rule one_le_power) simp
  then have "(100::rat) \<le> 100 * (6 / 5) ^ nat (l - 1)" by simp
  then have "(100::int) \<le> \<lfloor>(100::rat) * (6 / 5) ^ nat (l - 1)\<rfloor>"
    by (simp add: le_floor_iff)
  with l show ?thesis
    by (simp add: xpRequiredBelowMax_def pow_def baseXP_def xpScalingFactor_def)
qed

lemma getLevelFromXp_loop_ge: "l \<le> getLevelFromXp_loop x l t"
proof (induction x l t rule: getLevelFromXp_loop.induct)
  case (1 xpv lvl t)
  show ?case
  proof (cases "xp_ge xpv t \<and> lvl < maxLevel")
    case True
    with 1 show ?thesis by (subst getLevelFromXp_loop.simps) auto
  next
    case False
    then show ?thesis by (subst getLevelFromXp_loop.simps) auto
  qed
qed

lemma getLevelFromXp_ge: "1 \<le> getLevelFromXp x"
  using getLevelFromXp_loop_ge [of 1 x] by (simp add: getLevelFromXp_def)

lemma nextLevelXp_ge:
  "nextLevelXp (getRemainingXp e) = Finite n \<Longrightarrow> 100 \<le> n"
  using xpRequiredBelowMax_ge [OF getLevelFromXp_ge, of e]
  by (auto simp: getRemainingXp_def Let_def getXpRequiredForNextLevel_def split: if_splits)

text \<open>
  The \<open>while\<close> loop of \<open>addExperience\<close>. Each round takes away at least 100 experience, so
  the loop ends.
\<close>

function levelUpLoop :: "int \<Rightarrow> int \<Rightarrow> bool \<Rightarrow> int \<times> int \<times> bool" where
  "levelUpLoop newExperience newLevel' leveledUp' =
     (case nextLevelXp (getRemainingXp newExperience) of
        Infinity \<Rightarrow> (newExperience, newLevel', leveledUp')
      | Finite n \<Rightarrow>
          if newExperience \<ge> n
          then levelUpLoop (newExperience - n) (newLevel' + 1) True
          else (newExperience, newLevel', leveledUp'))"
  by pat_completeness auto
termination
proof (relation "measure (\<lambda>(newExperience, newLevel', leveledUp'). nat newExperience)")
  show "wf (measure (\<lambda>(newExperience, newLevel', leveledUp'). nat newExperience))" by simp
next
  fix newExperience newLevel' :: int and leveledUp' :: bool and n :: int
  assume "nextLevelXp (getRemainingXp newExperience) = Finite n" and "n \<le> newExperience"
  then show "((newExperience - n, newLevel' + 1, True), newExperience, newLevel', leveledUp')
      \<in> measure (\<lambda>(newExperience, newLevel', leveledUp'). nat newExperience)"
    using nextLevelXp_ge [of newExperience n] by simp
qed

declare levelUpLoop.simps [simp del]

record ExperienceGainResult =
  gr_user :: User
  leveledUp :: bool
  oldLevel :: int
  newLevel :: int
  baseXp :: rat
  actualXp :: int
  multipliers :: XpMultipliers
  milestoneRewards :: "MilestoneReward list"

text \<open>
  \<open>addExperience(userId, baseAmount, zoneId?)\<close>. The body never reads \<open>zoneId\<close>. An
  exception after the update of the user leaves that update in the database.
\<close>

definition addExperience ::
  "date \<Rightarrow> rat \<Rightarrow> Database \<Rightarrow> string \<Rightarrow> rat \<Rightarrow> string option
     \<Rightarrow> (error + ExperienceGainResult) \<times> Database" where
  "addExperience now avgLevel db userId' baseAmount zoneId =
     (case getUserById db userId' of
        None \<Rightarrow> (Inl (Error (''User with ID '' @ userId' @ '' not found'')), db)
      | Some user \<Rightarrow>
          let multipliers' = getCurrentXpMultipliers now avgLevel db userId';
              actualXp' = \<lceil>baseAmount * totalMultiplier multipliers'\<rceil>;
              oldLevel' = level user;
              (newExperience, newLevel', leveledUp') =
                levelUpLoop (experience user + actualXp') oldLevel' False
          in case user_update now userId'
                    (\<lambda>u. u\<lparr>level := newLevel', experience := newExperience,
                            totalLifetimeExperience := totalLifetimeExperience user + actualXp'\<rparr>)
                    db of
               (Inl e, db1) \<Rightarrow> (Inl e, db1)
             | (Inr updatedUser, db1) \<Rightarrow>
                 (case (if leveledUp' then processMilestoneRewards db1 userId' newLevel'
                        else (Inr [], db1)) of
                    (Inl e, db2) \<Rightarrow> (Inl e, db2)
                  | (Inr milestoneRewards', db2) \<Rightarrow>
                      (Inr \<lparr>gr_user = updatedUser, leveledUp = leveledUp',
                            oldLevel = oldLevel', newLevel = newLevel',
                            baseXp = baseAmount, actualXp = actualXp',
                            multipliers = multipliers',
                            milestoneRewards = milestoneRewards'\<rparr>, db2)))"

section \<open>UserService: prestige\<close>

text \<open>
  \<open>prestigeUser(userId)\<close>. The result is \<open>{ success: false, error }\<close> or
  \<open>{ success: true, user, prestigeLevel, prestigePoints }\<close>. The whole body is inside
  \<open>try\<close>: an exception becomes a failure result, and the writes made before it stay.
  The deletion of the skill nodes and \<open>checkEligibleTitles\<close> write the tables of skill
  nodes and titles and the column \<open>activeTitle\<close> only, which are not part of the model.
\<close>

datatype PrestigeResult = PrestigeFailure string | PrestigeSuccess User int int

definition caught :: "error \<Rightarrow> PrestigeResult" where
  "caught e = (case e of Error msg \<Rightarrow> PrestigeFailure (''An error occurred: '' @ msg))"

definition prestigeUser :: "date \<Rightarrow> Database \<Rightarrow> string \<Rightarrow> PrestigeResult \<times> Database" where
  "prestigeUser now db userId' =
     (case getUserById db userId' of
        None \<Rightarrow> (PrestigeFailure (''User with ID '' @ userId' @ '' not found''), db)
      | Some user \<Rightarrow>
          let MIN_PRESTIGE_LEVEL = 50
          in if level user < MIN_PRESTIGE_LEVEL
             then (PrestigeFailure (''You must be at least level '' @ showInt MIN_PRESTIGE_LEVEL
                     @ '' to prestige. You are level '' @ showInt (level user) @ ''.''), db)
             else
               let newPrestigePoints = level user div 10
               in case user_update now userId'
                         (\<lambda>u. u\<lparr>level := 1, experience := 0,
                                 prestigeLevel := prestigeLevel user + 1,
                                 prestigePoints := prestigePoints user + newPrestigePoints\<rparr>)
                         db of
                    (Inl e, db1) \<Rightarrow> (caught e, db1)
                  | (Inr updatedUser, db1) \<Rightarrow>
                      (case milestoneReward_create
                              \<lparr>reward_id = ''prestige-'' @ showInt (prestigeLevel user + 1)
                                  @ ''-'' @ userId',
                               rewardType = SPECIAL,
                               description = ''Prestige '' @ showInt (prestigeLevel user + 1)
                                  @ '' reward - Energy cap increased by 10%'',
                               amount = None, itemId = None, titleId = None, badgeId = None,
                               userId = userId', rewardLevel = 0, claimed = True,
                               claimedAt = Some now\<rparr> db1 of
                         (Inl e, db2) \<Rightarrow> (caught e, db2)
                       | (Inr _, db2) \<Rightarrow>
                           let prestigeEnergyBonus = (1 / 10) * of_int (prestigeLevel updatedUser);
                               db3 = db2\<lparr>userEnergyStateTable :=
                                 map (\<lambda>es. if es_userId es = userId'
                                       then es\<lparr>passiveMaxEnergyBonus := prestigeEnergyBonus,
                                              es_maxEnergy := \<lceil>100 * (1 + prestigeEnergyBonus)\<rceil>,
                                              es_currentEnergy := \<lceil>100 * (1 + prestigeEnergyBonus)\<rceil>\<rparr>
                                       else es) (userEnergyStateTable db2)\<rparr>
                           in (PrestigeSuccess updatedUser (prestigeLevel updatedUser)
                                 (prestigePoints updatedUser), db3)))"

section \<open>Properties of EnergyManager\<close>

lemma getEffectiveEnergyCap_default:
  "0 < m \<Longrightarrow> getEffectiveEnergyCap now c m None = Inr (max c m)"
  by (simp add: getEffectiveEnergyCap_def)

lemma calculateRegeneratedEnergy_ok:
  assumes "calculateRegeneratedEnergy now c m lastUpd mult zone = Inr r"
  shows "0 \<le> c \<and> 0 < m \<and> 0 \<le> mult \<and> c \<le> r \<and> r \<le> max c m"
proof -
  from assms have c: "0 \<le> c" and m: "0 < m" and k: "0 \<le> mult"
    by (auto simp: calculateRegeneratedEnergy_def split: if_splits)
  let ?mp = "max 0 (rat_of_int (now - lastUpd) / (1000 * 60))"
  let ?em = "if zone then mult * recoveryZoneMultiplier else mult"
  have em: "0 \<le> ?em" using k by (simp add: recoveryZoneMultiplier_def)
  have "0 \<le> ?mp * baseRegenerationRate * ?em"
    using em by (simp add: baseRegenerationRate_def)
  then have g: "0 \<le> rat_of_int \<lfloor>?mp * baseRegenerationRate * ?em\<rfloor>" by simp
  from assms c m k have
    "r = (if c \<ge> max c m then c
          else min (c + rat_of_int \<lfloor>?mp * baseRegenerationRate * ?em\<rfloor>) (max c m))"
    by (simp add: calculateRegeneratedEnergy_def getEffectiveEnergyCap_default Let_def
        split: if_splits)
  with g c m k show ?thesis by (auto simp: min_def max_def split: if_splits)
qed

text \<open>
  C9. For valid arguments \<open>applyEnergyBoost\<close> returns the boosted energy capped at
  \<open>maxEnergy * 1.5\<close> when overflow is allowed and at \<open>maxEnergy\<close> otherwise, and the
  returned expiry is \<open>now + overflowDuration\<close> minutes exactly when the new energy
  exceeds \<open>maxEnergy\<close>. No earlier expiry is an input of the function, so the returned
  window starts at \<open>now\<close> whatever window existed before.
\<close>

theorem applyEnergyBoost_cap_and_expiry:
  assumes "0 \<le> c" and "0 < m" and "0 < boostAmount" and "0 \<le> overflowDuration"
  shows "\<exists>r. applyEnergyBoost now c m boostAmount allowOverflow overflowDuration = Inr r
      \<and> energy r = min (c + boostAmount) (if allowOverflow then m * (1 + 1 / 2) else m)
      \<and> overflowExpiry r =
          (if energy r > m then Some (now + overflowDuration * 60000) else None)"
  using assms by (simp add: applyEnergyBoost_def maxOverflowPercentage_def Let_def)

theorem applyEnergyBoost_cap_and_expiry_witness:
  "(0::rat) \<le> 50 \<and> (0::rat) < 100 \<and> (0::rat) < 80 \<and> (0::int) \<le> 60
   \<and> applyEnergyBoost 1000 50 100 80 True 60
       = Inr \<lparr>energy = 130, overflowExpiry = Some (1000 + 60 * 60000)\<rparr>"
  using applyEnergyBoost_cap_and_expiry [of 50 100 80 60 1000 True]
  by auto

text \<open>
  C7. When \<open>calculateRegeneratedEnergy\<close> has returned \<open>r\<close> at time \<open>now\<close> and
  \<open>r\<close> is stored with the update time \<open>now\<close> (every write of the repository stamps the
  update time), a second call at the same \<open>now\<close> returns \<open>r\<close> again.
\<close>

theorem calculateRegeneratedEnergy_idempotent:
  assumes "calculateRegeneratedEnergy now c m lastUpd mult zone = Inr r"
  shows "calculateRegeneratedEnergy now r m now mult zone = Inr r"
proof -
  from calculateRegeneratedEnergy_ok [OF assms]
  have "0 \<le> r" and "0 < m" and "0 \<le> mult" by auto
  then show ?thesis
    by (simp add: calculateRegeneratedEnergy_def getEffectiveEnergyCap_default Let_def)
qed

theorem calculateRegeneratedEnergy_idempotent_witness:
  "calculateRegeneratedEnergy 600000 40 100 0 1 False = Inr 50
   \<and> calculateRegeneratedEnergy 600000 50 100 600000 1 False = Inr 50"
proof -
  have h: "calculateRegeneratedEnergy 600000 40 100 0 1 False = Inr 50"
    by (simp add: calculateRegeneratedEnergy_def getEffectiveEnergyCap_def Let_def
        baseRegenerationRate_def)
  from calculateRegeneratedEnergy_idempotent [OF h] h show ?thesis by simp
qed

text \<open>
  The stamp of the update time is what prevents double counting: a second call with the
  old update time would count the same ten minutes again.
\<close>

lemma calculateRegeneratedEnergy_stale_update_time:
  "calculateRegeneratedEnergy 600000 40 100 0 1 False = Inr 50
   \<and> calculateRegeneratedEnergy 600000 50 100 0 1 False = Inr 60"
  by (simp add: calculateRegeneratedEnergy_def getEffectiveEnergyCap_def Let_def
      baseRegenerationRate_def)

section \<open>Properties of UserService: helper facts\<close>

lemma getUserById_uid: "getUserById db k = Some u \<Longrightarrow> uid u = k"
  by (auto simp: getUserById_def find_Some_iff)

lemma find_replace:
  "find (\<lambda>r. uid r = k) xs = Some u \<Longrightarrow> uid u' = k \<Longrightarrow>
   find (\<lambda>r. uid r = k) (map (\<lambda>r. if uid r = k then u' else r) xs) = Some u'"
  by (induction xs) (auto split: if_splits)

lemma user_update_found:
  assumes "getUserById db k = Some u" and "uid (f u) = k"
  shows "\<exists>db'. user_update now k f db = (Inr ((f u)\<lparr>updatedAt := now\<rparr>), db')
     \<and> getUserById db' k = Some ((f u)\<lparr>updatedAt := now\<rparr>)
     \<and> milestoneRewardTable db' = milestoneRewardTable db
     \<and> xpMultiplierEventTable db' = xpMultiplierEventTable db
     \<and> userEnergyStateTable db' = userEnergyStateTable db"
  using assms find_replace [of k "userTable db" u "(f u)\<lparr>updatedAt := now\<rparr>"]
  by (simp add: user_update_def Let_def getUserById_def)

lemma calculateRegeneratedEnergy_whole:
  assumes "0 \<le> c" and "0 < m"
  shows "\<exists>r::int. calculateRegeneratedEnergy now (of_int c) (of_int m) t 1 False = Inr (of_int r)"
proof -
  let ?g = "\<lfloor>max 0 (rat_of_int (now - t) / (1000 * 60)) * baseRegenerationRate * 1\<rfloor>"
  have "calculateRegeneratedEnergy now (of_int c) (of_int m) t 1 False =
        Inr (of_int (if c \<ge> max c m then c else min (c + ?g) (max c m)))"
    using assms
    by (simp add: calculateRegeneratedEnergy_def getEffectiveEnergyCap_default Let_def
        flip: of_int_max of_int_min of_int_add)
  then show ?thesis by blast
qed

section \<open>Properties of UserService: multipliers\<close>

text \<open>
  The event multiplier that \<open>addExperience\<close> takes from \<open>getCurrentXpMultipliers\<close> is
  1 when no event of the table is active at \<open>now\<close>, and otherwise the greatest multiplier
  among the active events: the multipliers are never multiplied, and two active events of
  2 and 3 give 3.
\<close>

lemma getCurrentXpMultipliers_event_highest:
  "eventMultiplier (getCurrentXpMultipliers now avgLevel db uid') =
     (let active = filter (\<lambda>event. startTime event \<le> now \<and> endTime event \<ge> now)
                     (xpMultiplierEventTable db)
      in if active = [] then 1 else Max (multiplier ` set active))"
proof -
  let ?active = "filter (\<lambda>event. startTime event \<le> now \<and> endTime event \<ge> now)
                     (xpMultiplierEventTable db)"
  show ?thesis
  proof (cases "map multiplier ?active")
    case Nil
    then show ?thesis by (simp add: getCurrentXpMultipliers_def Let_def)
  next
    case (Cons m ms)
    then have ne: "?active \<noteq> []" by auto
    have "Max (multiplier ` set ?active) = Max (set (m # ms))"
      using Cons by (metis set_map)
    also have "\<dots> = fold max ms m" by (rule Max.set_eq_fold)
    finally show ?thesis using Cons ne
      by (simp add: getCurrentXpMultipliers_def Let_def)
  qed
qed

lemma getCurrentXpMultipliers_event_highest_example:
  "(let r = eventMultiplier (getCurrentXpMultipliers 50 1
      \<lparr>userTable = [], milestoneRewardTable = [],
       xpMultiplierEventTable =
         [\<lparr>eventId = ''double'', multiplier = 2, startTime = 0, endTime = 100,
           userIds = None, zoneIds = None\<rparr>,
          \<lparr>eventId = ''triple'', multiplier = 3, startTime = 10, endTime = 90,
           userIds = None, zoneIds = None\<rparr>],
       userEnergyStateTable = []\<rparr> ''u'')
    in r = 3 \<and> r \<noteq> 6)"
  by (simp add: getCurrentXpMultipliers_event_highest)

text \<open>
  C1. The event multiplier has to be the greatest one among the active events that are in
  scope for the player and zone, and 1 when none applies. \<open>getCurrentXpMultipliers\<close>
  never reads the columns \<open>userIds\<close> and \<open>zoneIds\<close>: the only active event has the
  multiplier 4 and is scoped to the user \<open>v\<close> and the zone \<open>z\<close>, and the user \<open>u\<close>
  gets 4. \<open>ExperienceCalculator.getActiveXpMultiplier\<close> on the same event gives 1.
\<close>

theorem getCurrentXpMultipliers_ignores_scope:
  "eventMultiplier (getCurrentXpMultipliers 50 1
      \<lparr>userTable = [\<lparr>uid = ''u'', level = 1, experience = 0, currentEnergy = 100,
                     maxEnergy = 100, updatedAt = 0, prestigeLevel = 0, prestigePoints = 0,
                     totalLifetimeExperience = 0\<rparr>],
       milestoneRewardTable = [],
       xpMultiplierEventTable =
         [\<lparr>eventId = ''e'', multiplier = 4, startTime = 0, endTime = 100,
           userIds = Some [CHR ''['', CHR 0x22, CHR ''v'', CHR 0x22, CHR '']''],
           zoneIds = Some [CHR ''['', CHR 0x22, CHR ''z'', CHR 0x22, CHR '']'']\<rparr>],
       userEnergyStateTable = []\<rparr> ''u'') = 4
   \<and> getActiveXpMultiplier 50
       [\<lparr>ev_id = ''e'', ev_multiplier = 4, ev_startTime = 0, ev_endTime = 100,
         ev_userIds = Some [''v''], ev_zoneIds = Some [''z'']\<rparr>] (Some ''u'') (Some ''y'') = 1"
  by (simp add: getCurrentXpMultipliers_def getUserById_def getActiveXpMultiplier_def
      activeMultipliers_def eventApplies_def)

text \<open>
  The in-memory \<open>ExperienceCalculator.getActiveXpMultiplier\<close>, which \<open>addExperience\<close>
  does not call, multiplies the multipliers of the events in scope.
\<close>

lemma getActiveXpMultiplier_stacks:
  "getActiveXpMultiplier 50
     [\<lparr>ev_id = ''double'', ev_multiplier = 2, ev_startTime = 0, ev_endTime = 100,
       ev_userIds = None, ev_zoneIds = None\<rparr>,
      \<lparr>ev_id = ''triple'', ev_multiplier = 3, ev_startTime = 10, ev_endTime = 90,
       ev_userIds = None, ev_zoneIds = None\<rparr>] (Some ''u'') None = 6"
  by (simp add: getActiveXpMultiplier_def activeMultipliers_def eventApplies_def)

text \<open>
  C6, as stated, fails: with a server average of 10 a player of level 5 has a deficit of 5
  levels, and the catch-up multiplier of \<open>getCurrentXpMultipliers\<close> is 1, not 1.5.
\<close>

theorem getCurrentXpMultipliers_catchup_counterexample:
  "(let c = catchupMultiplier (getCurrentXpMultipliers 0 10
      \<lparr>userTable = [\<lparr>uid = ''u'', level = 5, experience = 0, currentEnergy = 100,
                     maxEnergy = 100, updatedAt = 0, prestigeLevel = 0, prestigePoints = 0,
                     totalLifetimeExperience = 0\<rparr>],
       milestoneRewardTable = [], xpMultiplierEventTable = [],
       userEnergyStateTable = []\<rparr> ''u'')
    in c = 1 \<and> c \<noteq> 3 / 2)"
  by (simp add: getCurrentXpMultipliers_def getUserById_def)

text \<open>
  C6, amended. The catch-up multiplier that \<open>addExperience\<close> uses is 1 while the deficit
  \<open>avgLevel - level\<close> is at most 5 (so also when the player is at or above the average);
  above 5 it is \<open>1 + 0.05 * deficit\<close>, capped at 1.5, so a deficit of 10 or more gives
  exactly 1.5.
\<close>

theorem getCurrentXpMultipliers_catchup:
  assumes "getUserById db uid' = Some u"
  shows "let deficit = avgLevel - of_int (level u);
             c = catchupMultiplier (getCurrentXpMultipliers now avgLevel db uid')
         in (deficit \<le> 5 \<longrightarrow> c = 1)
          \<and> (5 < deficit \<and> deficit \<le> 10 \<longrightarrow> c = 1 + deficit * (5 / 100))
          \<and> (10 \<le> deficit \<longrightarrow> c = 3 / 2)"
  using assms by (auto simp: getCurrentXpMultipliers_def Let_def min_def)

theorem getCurrentXpMultipliers_catchup_witness:
  "(let db = (\<lambda>l. \<lparr>userTable = [\<lparr>uid = ''u'', level = l, experience = 0, currentEnergy = 100,
                     maxEnergy = 100, updatedAt = 0, prestigeLevel = 0, prestigePoints = 0,
                     totalLifetimeExperience = 0\<rparr>],
       milestoneRewardTable = [], xpMultiplierEventTable = [],
       userEnergyStateTable = []\<rparr>)
    in catchupMultiplier (getCurrentXpMultipliers 0 20 (db 17) ''u'') = 1
     \<and> catchupMultiplier (getCurrentXpMultipliers 0 20 (db 14) ''u'') = 13 / 10
     \<and> catchupMultiplier (getCurrentXpMultipliers 0 20 (db 3) ''u'') = 3 / 2)"
proof -
  let ?u = "\<lambda>l. \<lparr>uid = ''u'', level = l, experience = 0, currentEnergy = 100,
                     maxEnergy = 100, updatedAt = 0, prestigeLevel = 0, prestigePoints = 0,
                     totalLifetimeExperience = 0\<rparr>"
  let ?db = "\<lambda>l. \<lparr>userTable = [?u l], milestoneRewardTable = [], xpMultiplierEventTable = [],
       userEnergyStateTable = []\<rparr>"
  have f: "getUserById (?db l) ''u'' = Some (?u l)" for l by (simp add: getUserById_def)
  have "catchupMultiplier (getCurrentXpMultipliers 0 20 (?db 17) ''u'') = 1"
    using getCurrentXpMultipliers_catchup [OF f [of 17], of 20 0] by (simp add: Let_def)
  moreover have "catchupMultiplier (getCurrentXpMultipliers 0 20 (?db 14) ''u'') = 13 / 10"
    using getCurrentXpMultipliers_catchup [OF f [of 14], of 20 0] by (simp add: Let_def)
  moreover have "catchupMultiplier (getCurrentXpMultipliers 0 20 (?db 3) ''u'') = 3 / 2"
    using getCurrentXpMultipliers_catchup [OF f [of 3], of 20 0] by (simp add: Let_def)
  ultimately show ?thesis by (simp add: Let_def)
qed

text \<open>
  The helper \<open>ExperienceCalculator.getCatchupMultiplier\<close>, which \<open>addExperience\<close> does not
  call, is the interpolation over a deficit of 0 to 5 levels.
\<close>

lemma getCatchupMultiplier_linear:
  "getCatchupMultiplier avg l =
     (if l \<ge> avg then 1 else if avg - l \<ge> 5 then 3 / 2 else 1 + (avg - l) / 10)"
  by (simp add: getCatchupMultiplier_def catchupThreshold_def maxCatchupMultiplier_def Let_def min_def)

section \<open>Properties of UserService: energy\<close>

text \<open>
  C2. \<open>calculateRegeneratedEnergy\<close> never passes an overflow expiry to
  \<open>getEffectiveEnergyCap\<close>. With 120 energy of a maximum of 100, ten minutes after the
  last update and an overflow window that is still open, the cap with the expiry is 150,
  but the regenerated energy stays 120.
\<close>

theorem calculateRegeneratedEnergy_ignores_overflow:
  "calculateRegeneratedEnergy 600000 120 100 0 1 False = Inr 120
   \<and> getEffectiveEnergyCap 600000 120 100 (Some 2400000) = Inr 150"
  by (simp add: calculateRegeneratedEnergy_def getEffectiveEnergyCap_def
      maxOverflowPercentage_def)

text \<open>
  C5. \<open>consumeEnergy\<close> fails with "Amount must be positive" when the amount is at most 0.
  For a stored user with non-negative energy and a positive maximum it regenerates the
  energy first; when the regenerated energy \<open>r\<close> is below the amount it fails with
  "Insufficient energy" and leaves the database as it was; otherwise the stored user has
  the energy \<open>r - amount\<close> and the update time \<open>now\<close>.
\<close>

theorem consumeEnergy_spec:
  "(amt \<le> 0 \<longrightarrow> consumeEnergy now db uid' amt = (Inl (Error ''Amount must be positive''), db))
   \<and> (getUserById db uid' = Some u \<and> 0 \<le> currentEnergy u \<and> 0 < maxEnergy u \<longrightarrow>
       (\<exists>r::int.
           calculateRegeneratedEnergy now (of_int (currentEnergy u)) (of_int (maxEnergy u))
             (updatedAt u) 1 False = Inr (of_int r)
         \<and> (0 < amt \<and> r < amt \<longrightarrow>
              consumeEnergy now db uid' amt = (Inl (Error ''Insufficient energy''), db))
         \<and> (0 < amt \<and> amt \<le> r \<longrightarrow>
              (\<exists>db'. consumeEnergy now db uid' amt
                        = (Inr (u\<lparr>currentEnergy := r - amt, updatedAt := now\<rparr>), db')
                    \<and> getUserById db' uid'
                        = Some (u\<lparr>currentEnergy := r - amt, updatedAt := now\<rparr>)))))"
proof (intro conjI impI)
  assume "amt \<le> 0"
  then show "consumeEnergy now db uid' amt = (Inl (Error ''Amount must be positive''), db)"
    by (simp add: consumeEnergy_def)
next
  assume a: "getUserById db uid' = Some u \<and> 0 \<le> currentEnergy u \<and> 0 < maxEnergy u"
  then obtain r :: int where r:
    "calculateRegeneratedEnergy now (of_int (currentEnergy u)) (of_int (maxEnergy u))
       (updatedAt u) 1 False = Inr (of_int r)"
    using calculateRegeneratedEnergy_whole by blast
  have low: "consumeEnergy now db uid' amt = (Inl (Error ''Insufficient energy''), db)"
    if "0 < amt \<and> r < amt"
    using that a r by (simp add: consumeEnergy_def)
  have ok: "\<exists>db'. consumeEnergy now db uid' amt
                        = (Inr (u\<lparr>currentEnergy := r - amt, updatedAt := now\<rparr>), db')
                    \<and> getUserById db' uid'
                        = Some (u\<lparr>currentEnergy := r - amt, updatedAt := now\<rparr>)"
    if h: "0 < amt \<and> amt \<le> r"
  proof -
    let ?f = "\<lambda>x. x\<lparr>currentEnergy := \<lfloor>rat_of_int r - rat_of_int amt\<rfloor>\<rparr>"
    have fl: "\<lfloor>rat_of_int r - rat_of_int amt\<rfloor> = r - amt"
      by (simp flip: of_int_diff)
    have "uid (?f u) = uid'" using a getUserById_uid [of db uid' u] by simp
    with a user_update_found [of db uid' u ?f now]
    show ?thesis using h r fl by (auto simp: consumeEnergy_def)
  qed
  from r low ok show "\<exists>r::int.
           calculateRegeneratedEnergy now (of_int (currentEnergy u)) (of_int (maxEnergy u))
             (updatedAt u) 1 False = Inr (of_int r)
         \<and> (0 < amt \<and> r < amt \<longrightarrow>
              consumeEnergy now db uid' amt = (Inl (Error ''Insufficient energy''), db))
         \<and> (0 < amt \<and> amt \<le> r \<longrightarrow>
              (\<exists>db'. consumeEnergy now db uid' amt
                        = (Inr (u\<lparr>currentEnergy := r - amt, updatedAt := now\<rparr>), db')
                    \<and> getUserById db' uid'
                        = Some (u\<lparr>currentEnergy := r - amt, updatedAt := now\<rparr>)))"
    by blast
qed

theorem consumeEnergy_spec_witness:
  "(let u = \<lparr>uid = ''u'', level = 1, experience = 0, currentEnergy = 40,
             maxEnergy = 100, updatedAt = 0, prestigeLevel = 0, prestigePoints = 0,
             totalLifetimeExperience = 0\<rparr>;
        db = \<lparr>userTable = [u], milestoneRewardTable = [], xpMultiplierEventTable = [],
              userEnergyStateTable = []\<rparr>
    in getUserById db ''u'' = Some u \<and> 0 \<le> currentEnergy u \<and> 0 < maxEnergy u
     \<and> calculateRegeneratedEnergy 600000 40 100 0 1 False = Inr 50
     \<and> consumeEnergy 600000 db ''u'' 0 = (Inl (Error ''Amount must be positive''), db)
     \<and> consumeEnergy 600000 db ''u'' 80 = (Inl (Error ''Insufficient energy''), db)
     \<and> fst (consumeEnergy 600000 db ''u'' 30)
         = Inr (u\<lparr>currentEnergy := 20, updatedAt := 600000\<rparr>))"
proof -
  let ?u = "\<lparr>uid = ''u'', level = 1, experience = 0, currentEnergy = 40,
             maxEnergy = 100, updatedAt = 0, prestigeLevel = 0, prestigePoints = 0,
             totalLifetimeExperience = 0\<rparr>"
  let ?db = "\<lparr>userTable = [?u], milestoneRewardTable = [], xpMultiplierEventTable = [],
              userEnergyStateTable = []\<rparr>"
  have f: "getUserById ?db ''u'' = Some ?u \<and> 0 \<le> currentEnergy ?u \<and> 0 < maxEnergy ?u"
    by (simp add: getUserById_def)
  have c: "calculateRegeneratedEnergy 600000 40 100 0 1 False = Inr 50"
    by (simp add: calculateRegeneratedEnergy_def getEffectiveEnergyCap_def Let_def
        baseRegenerationRate_def)
  have a0: "consumeEnergy 600000 ?db ''u'' 0 = (Inl (Error ''Amount must be positive''), ?db)"
    using consumeEnergy_spec [of 0 600000 ?db "''u''" ?u] by simp
  have a80: "consumeEnergy 600000 ?db ''u'' 80 = (Inl (Error ''Insufficient energy''), ?db)"
    using consumeEnergy_spec [of 80 600000 ?db "''u''" ?u] f c by auto
  have a30: "fst (consumeEnergy 600000 ?db ''u'' 30)
         = Inr (?u\<lparr>currentEnergy := 20, updatedAt := 600000\<rparr>)"
    using consumeEnergy_spec [of 30 600000 ?db "''u''" ?u] f c by auto
  from f c a0 a80 a30 show ?thesis by (simp add: Let_def)
qed

text \<open>
  C10. When the regenerated energy of a user exceeds the maximum, \<open>regenerateEnergy\<close>
  with any amount from 0 on stores exactly the maximum, which is below the energy the user
  had.
\<close>

theorem regenerateEnergy_in_overflow:
  assumes "getUserById db uid' = Some u" and "0 \<le> amt"
    and "calculateRegeneratedEnergy now (of_int (currentEnergy u)) (of_int (maxEnergy u))
           (updatedAt u) 1 False = Inr r"
    and "of_int (maxEnergy u) < r"
  shows "\<exists>db'. regenerateEnergy now db uid' amt
                 = (Inr (u\<lparr>currentEnergy := maxEnergy u, updatedAt := now\<rparr>), db')
             \<and> getUserById db' uid' = Some (u\<lparr>currentEnergy := maxEnergy u, updatedAt := now\<rparr>)
             \<and> r = of_int (currentEnergy u)
             \<and> maxEnergy u < currentEnergy u"
proof -
  from calculateRegeneratedEnergy_ok [OF assms(3)] assms(4)
  have r: "r = of_int (currentEnergy u)" by (auto simp: max_def split: if_splits)
  with assms(4) have lt: "maxEnergy u < currentEnergy u" by simp
  let ?f = "\<lambda>x. x\<lparr>currentEnergy := maxEnergy u\<rparr>"
  have m: "min (r + rat_of_int amt) (rat_of_int (maxEnergy u)) = rat_of_int (maxEnergy u)"
    using assms(2,4) by (simp add: min_def)
  have "uid (?f u) = uid'" using assms(1) getUserById_uid [of db uid' u] by simp
  with assms(1) user_update_found [of db uid' u ?f now]
  show ?thesis using assms(2,3) r lt m by (auto simp: regenerateEnergy_def Let_def)
qed

theorem regenerateEnergy_in_overflow_witness:
  "(let u = \<lparr>uid = ''u'', level = 1, experience = 0, currentEnergy = 130,
             maxEnergy = 100, updatedAt = 0, prestigeLevel = 0, prestigePoints = 0,
             totalLifetimeExperience = 0\<rparr>;
        db = \<lparr>userTable = [u], milestoneRewardTable = [], xpMultiplierEventTable = [],
              userEnergyStateTable = []\<rparr>
    in getUserById db ''u'' = Some u
     \<and> calculateRegeneratedEnergy 60000 130 100 0 1 False = Inr 130
     \<and> fst (regenerateEnergy 60000 db ''u'' 0)
         = Inr (u\<lparr>currentEnergy := 100, updatedAt := 60000\<rparr>))"
proof -
  let ?u = "\<lparr>uid = ''u'', level = 1, experience = 0, currentEnergy = 130,
             maxEnergy = 100, updatedAt = 0, prestigeLevel = 0, prestigePoints = 0,
             totalLifetimeExperience = 0\<rparr>"
  let ?db = "\<lparr>userTable = [?u], milestoneRewardTable = [], xpMultiplierEventTable = [],
              userEnergyStateTable = []\<rparr>"
  have f: "getUserById ?db ''u'' = Some ?u" by (simp add: getUserById_def)
  have c: "calculateRegeneratedEnergy 60000 (of_int (currentEnergy ?u)) (of_int (maxEnergy ?u))
             (updatedAt ?u) 1 False = Inr 130"
    by (simp add: calculateRegeneratedEnergy_def getEffectiveEnergyCap_def)
  have "rat_of_int (maxEnergy ?u) < 130" by simp
  from regenerateEnergy_in_overflow [OF f _ c this, of 0] f c
  show ?thesis by (auto simp: Let_def)
qed

section \<open>Properties of UserService: experience and prestige\<close>

text \<open>
  C3. A user at level 1 with 0 experience is granted 100 experience. The cumulative figure
  is 100, the level of 100 cumulative experience is 2 and the experience within level 2
  would be 0; \<open>addExperience\<close> stores level 1 and experience 100.
\<close>

theorem addExperience_level_not_rederived:
  "(case addExperience 0 1
      \<lparr>userTable = [\<lparr>uid = ''u'', level = 1, experience = 0, currentEnergy = 100,
                     maxEnergy = 100, updatedAt = 0, prestigeLevel = 0, prestigePoints = 0,
                     totalLifetimeExperience = 0\<rparr>],
       milestoneRewardTable = [], xpMultiplierEventTable = [],
       userEnergyStateTable = []\<rparr> ''u'' 100 None of
      (Inr res, db') \<Rightarrow>
        actualXp res = 100 \<and> newLevel res = 1 \<and> level (gr_user res) = 1
        \<and> experience (gr_user res) = 100 \<and> \<not> leveledUp res
    | (Inl e, db') \<Rightarrow> False)
   \<and> getXpForLevel 1 + 0 + 100 = 100
   \<and> getLevelFromXp 100 = 2
   \<and> 100 - getXpForLevel 2 = 0"
  by code_simp

text \<open>
  C8. \<open>prestigeUser\<close> returns the failure "You must be at least level 50 to prestige"
  and leaves the database as it was when the level is below 50. From level 50 on the stored
  user has level 1, experience 0, a prestige level raised by 1,
  \<open>floor(level / 10)\<close> more prestige points and the same total lifetime experience.
\<close>

theorem prestigeUser_spec:
  assumes "getUserById db uid' = Some u"
  shows "(level u < 50 \<longrightarrow>
            prestigeUser now db uid'
              = (PrestigeFailure (''You must be at least level '' @ showInt 50
                   @ '' to prestige. You are level '' @ showInt (level u) @ ''.''), db))
       \<and> (50 \<le> level u \<longrightarrow>
            (\<exists>u'. getUserById (snd (prestigeUser now db uid')) uid' = Some u'
                 \<and> level u' = 1 \<and> experience u' = 0
                 \<and> prestigeLevel u' = prestigeLevel u + 1
                 \<and> prestigePoints u' = prestigePoints u + level u div 10
                 \<and> totalLifetimeExperience u' = totalLifetimeExperience u))"
proof (intro conjI impI)
  assume "level u < 50"
  with assms show "prestigeUser now db uid'
              = (PrestigeFailure (''You must be at least level '' @ showInt 50
                   @ '' to prestige. You are level '' @ showInt (level u) @ ''.''), db)"
    by (simp add: prestigeUser_def)
next
  assume ge: "50 \<le> level u"
  let ?f = "\<lambda>x. x\<lparr>level := 1, experience := 0, prestigeLevel := prestigeLevel u + 1,
                    prestigePoints := prestigePoints u + level u div 10\<rparr>"
  let ?u' = "(?f u)\<lparr>updatedAt := now\<rparr>"
  have "uid (?f u) = uid'" using assms getUserById_uid [of db uid' u] by simp
  with assms user_update_found [of db uid' u ?f now]
  obtain db1 where upd: "user_update now uid' ?f db = (Inr ?u', db1)"
    and g1: "getUserById db1 uid' = Some ?u'" by blast
  have keep: "getUserById db2 uid' = Some ?u'"
    if "snd (milestoneReward_create row db1) = db2" for row db2
    using that g1 by (auto simp: milestoneReward_create_def getUserById_def split: if_splits)
  have "getUserById (snd (prestigeUser now db uid')) uid' = Some ?u'"
    using assms ge upd g1 keep
    by (auto simp: prestigeUser_def Let_def getUserById_def milestoneReward_create_def
        split: prod.splits sum.splits if_splits)
  then show "\<exists>u'. getUserById (snd (prestigeUser now db uid')) uid' = Some u'
                 \<and> level u' = 1 \<and> experience u' = 0
                 \<and> prestigeLevel u' = prestigeLevel u + 1
                 \<and> prestigePoints u' = prestigePoints u + level u div 10
                 \<and> totalLifetimeExperience u' = totalLifetimeExperience u"
    by simp
qed

theorem prestigeUser_spec_witness:
  "(let u = (\<lambda>l. \<lparr>uid = ''u'', level = l, experience = 42, currentEnergy = 100,
             maxEnergy = 100, updatedAt = 0, prestigeLevel = 2, prestigePoints = 7,
             totalLifetimeExperience = 99999\<rparr>);
        db = (\<lambda>l. \<lparr>userTable = [u l], milestoneRewardTable = [], xpMultiplierEventTable = [],
              userEnergyStateTable = []\<rparr>)
    in getUserById (db 57) ''u'' = Some (u 57) \<and> getUserById (db 49) ''u'' = Some (u 49)
     \<and> prestigeUser 1000 (db 49) ''u''
         = (PrestigeFailure ''You must be at least level 50 to prestige. You are level 49.'',
            db 49)
     \<and> (\<exists>u'. getUserById (snd (prestigeUser 1000 (db 57) ''u'')) ''u'' = Some u'
            \<and> level u' = 1 \<and> experience u' = 0 \<and> prestigeLevel u' = 3
            \<and> prestigePoints u' = 12 \<and> totalLifetimeExperience u' = 99999))"
proof -
  let ?u = "\<lambda>l. \<lparr>uid = ''u'', level = l, experience = 42, currentEnergy = 100,
             maxEnergy = 100, updatedAt = 0, prestigeLevel = 2, prestigePoints = 7,
             totalLifetimeExperience = 99999\<rparr>"
  let ?db = "\<lambda>l. \<lparr>userTable = [?u l], milestoneRewardTable = [], xpMultiplierEventTable = [],
              userEnergyStateTable = []\<rparr>"
  have f: "getUserById (?db l) ''u'' = Some (?u l)" for l by (simp add: getUserById_def)
  have s50: "showInt 50 = ''50''" by code_simp
  have s49: "showInt 49 = ''49''" by code_simp
  have lo: "prestigeUser 1000 (?db 49) ''u''
         = (PrestigeFailure ''You must be at least level 50 to prestige. You are level 49.'',
            ?db 49)"
    using prestigeUser_spec [OF f [of 49], of 1000] s50 s49 by simp
  have hi: "\<exists>u'. getUserById (snd (prestigeUser 1000 (?db 57) ''u'')) ''u'' = Some u'
            \<and> level u' = 1 \<and> experience u' = 0 \<and> prestigeLevel u' = 3
            \<and> prestigePoints u' = 12 \<and> totalLifetimeExperience u' = 99999"
    using prestigeUser_spec [OF f [of 57], of 1000] by simp
  from f lo hi show ?thesis by (simp add: Let_def)
qed

section \<open>Properties of UserService: milestone rewards\<close>

lemma milestoneReward_create_cases:
  "milestoneReward_create row db = (x, db') \<Longrightarrow>
   (\<exists>e. x = Inl e \<and> db' = db)
   \<or> (x = Inr row \<and> db' = db\<lparr>milestoneRewardTable := milestoneRewardTable db @ [row]\<rparr>
       \<and> reward_id row \<notin> reward_id ` set (milestoneRewardTable db))"
  by (auto simp: milestoneReward_create_def split: if_splits)

lemma createRewards_stored:
  "createRewards k lvl rs db = (x, db') \<Longrightarrow>
   \<exists>n \<le> length rs.
     db' = db\<lparr>milestoneRewardTable := milestoneRewardTable db @ map (rewardRow k lvl) (take n rs)\<rparr>
     \<and> (x = Inr () \<longrightarrow> n = length rs)
     \<and> (distinct (map reward_id (milestoneRewardTable db)) \<longrightarrow>
          distinct (map reward_id (milestoneRewardTable db')))"
proof (induction rs arbitrary: db)
  case Nil
  then show ?case by auto
next
  case (Cons r rs)
  obtain y db1 where c: "milestoneReward_create (rewardRow k lvl r) db = (y, db1)"
    by (cases "milestoneReward_create (rewardRow k lvl r) db") auto
  from milestoneReward_create_cases [OF c] show ?case
  proof
    assume "\<exists>e. y = Inl e \<and> db1 = db"
    with c Cons.prems have "db' = db" and "x \<noteq> Inr ()" by auto
    then show ?thesis by (intro exI [of _ 0]) simp
  next
    assume a: "y = Inr (rewardRow k lvl r)
       \<and> db1 = db\<lparr>milestoneRewardTable := milestoneRewardTable db @ [rewardRow k lvl r]\<rparr>
       \<and> reward_id (rewardRow k lvl r) \<notin> reward_id ` set (milestoneRewardTable db)"
    with c Cons.prems have "createRewards k lvl rs db1 = (x, db')" by simp
    from Cons.IH [OF this] obtain n where n: "n \<le> length rs"
      and d: "db' = db1\<lparr>milestoneRewardTable :=
                milestoneRewardTable db1 @ map (rewardRow k lvl) (take n rs)\<rparr>"
      and f: "x = Inr () \<longrightarrow> n = length rs"
      and g: "distinct (map reward_id (milestoneRewardTable db1)) \<longrightarrow>
          distinct (map reward_id (milestoneRewardTable db'))"
      by blast
    have "distinct (map reward_id (milestoneRewardTable db)) \<longrightarrow>
          distinct (map reward_id (milestoneRewardTable db1))"
      using a by auto
    with n d f g a show ?thesis by (intro exI [of _ "Suc n"]) auto
  qed
qed

lemma getUserById_table [simp]:
  "getUserById (db\<lparr>milestoneRewardTable := t\<rparr>) k = getUserById db k"
  by (simp add: getUserById_def)

lemma createRewards_all:
  "getUserById db k \<noteq> None \<Longrightarrow> distinct (map reward_id rs) \<Longrightarrow>
   \<forall>r \<in> set (milestoneRewardTable db). reward_id r \<notin> reward_id ` set rs \<Longrightarrow>
   createRewards k lvl rs db
     = (Inr (), db\<lparr>milestoneRewardTable := milestoneRewardTable db @ map (rewardRow k lvl) rs\<rparr>)"
proof (induction rs arbitrary: db)
  case Nil
  then show ?case by simp
next
  case (Cons r rs)
  let ?db1 = "db\<lparr>milestoneRewardTable := milestoneRewardTable db @ [rewardRow k lvl r]\<rparr>"
  have c: "milestoneReward_create (rewardRow k lvl r) db = (Inr (rewardRow k lvl r), ?db1)"
    using Cons.prems by (auto simp: milestoneReward_create_def rewardRow_def)
  have "createRewards k lvl rs ?db1
     = (Inr (), ?db1\<lparr>milestoneRewardTable := milestoneRewardTable ?db1 @ map (rewardRow k lvl) rs\<rparr>)"
    using Cons.prems by (intro Cons.IH) (auto simp: rewardRow_def)
  with c show ?case by simp
qed

lemma filter_rewardRow_unclaimed:
  "filter (\<lambda>r. userId r = k \<and> rewardLevel r = lvl \<and> \<not> claimed r) (map (rewardRow k lvl) rs)
     = map (rewardRow k lvl) rs"
  by (induction rs) (simp_all add: rewardRow_def)

lemma filter_rewardRow_level:
  "filter (\<lambda>r. userId r = k \<and> rewardLevel r = lvl) (map (rewardRow k lvl) rs)
     = map (rewardRow k lvl) rs"
  by (induction rs) (simp_all add: rewardRow_def)

lemma milestones_length:
  "length (milestones k lvl) = (if lvl = 50 then 3 else if lvl \<in> {5, 10, 25} then 1 else 0)"
  by (simp add: milestones_def)

lemma milestones_distinct: "distinct (map reward_id (milestones k lvl))"
  by (simp add: milestones_def)

lemma processMilestoneRewards_stored:
  "\<exists>n \<le> length (milestones k lvl).
     snd (processMilestoneRewards db k lvl)
       = db\<lparr>milestoneRewardTable :=
              milestoneRewardTable db @ map (rewardRow k lvl) (take n (milestones k lvl))\<rparr>
     \<and> (n > 0 \<longrightarrow> filter (\<lambda>r. userId r = k \<and> rewardLevel r = lvl \<and> \<not> claimed r)
                      (milestoneRewardTable db) = [])
     \<and> (distinct (map reward_id (milestoneRewardTable db)) \<longrightarrow>
          distinct (map reward_id (milestoneRewardTable (snd (processMilestoneRewards db k lvl)))))"
proof (cases "filter (\<lambda>r. userId r = k \<and> rewardLevel r = lvl \<and> \<not> claimed r)
                 (milestoneRewardTable db) = []")
  case True
  obtain x db' where c: "createRewards k lvl (milestones k lvl) db = (x, db')"
    by (cases "createRewards k lvl (milestones k lvl) db") auto
  with True have s: "snd (processMilestoneRewards db k lvl) = db'"
    by (auto simp: processMilestoneRewards_def Let_def split: sum.splits)
  from createRewards_stored [OF c] True s show ?thesis by auto
next
  case False
  then have "snd (processMilestoneRewards db k lvl) = db"
    by (simp add: processMilestoneRewards_def Let_def)
  with False show ?thesis by (intro exI [of _ 0]) simp
qed

lemma processMilestoneRewards_again:
  "snd (processMilestoneRewards (snd (processMilestoneRewards db k lvl)) k lvl)
     = snd (processMilestoneRewards db k lvl)"
proof -
  let ?P = "\<lambda>r. userId r = k \<and> rewardLevel r = lvl \<and> \<not> claimed r"
  let ?db1 = "snd (processMilestoneRewards db k lvl)"
  from processMilestoneRewards_stored [of k lvl db] obtain n where
    st: "?db1 = db\<lparr>milestoneRewardTable :=
              milestoneRewardTable db @ map (rewardRow k lvl) (take n (milestones k lvl))\<rparr>"
    and n: "n \<le> length (milestones k lvl)" by blast
  show ?thesis
  proof (cases "take n (milestones k lvl) = []")
    case True
    with st have "?db1 = db" by simp
    then show ?thesis by simp
  next
    case False
    have "filter ?P (milestoneRewardTable ?db1)
        = filter ?P (milestoneRewardTable db) @ map (rewardRow k lvl) (take n (milestones k lvl))"
      by (subst st) (simp add: filter_rewardRow_unclaimed)
    with False have "filter ?P (milestoneRewardTable ?db1) \<noteq> []" by simp
    then show ?thesis by (simp add: processMilestoneRewards_def Let_def)
  qed
qed

lemma processMilestoneRewards_first:
  assumes "getUserById db k \<noteq> None"
    and "\<forall>r \<in> set (milestoneRewardTable db).
           \<not> (userId r = k \<and> rewardLevel r = lvl)
           \<and> reward_id r \<notin> reward_id ` set (milestones k lvl)"
  shows "processMilestoneRewards db k lvl
     = (Inr (milestones k lvl),
        db\<lparr>milestoneRewardTable :=
              milestoneRewardTable db @ map (rewardRow k lvl) (milestones k lvl)\<rparr>)"
proof -
  from assms(2) have "filter (\<lambda>r. userId r = k \<and> rewardLevel r = lvl \<and> \<not> claimed r)
                 (milestoneRewardTable db) = []"
    by (auto simp: filter_empty_conv)
  moreover from assms have "createRewards k lvl (milestones k lvl) db
     = (Inr (), db\<lparr>milestoneRewardTable :=
              milestoneRewardTable db @ map (rewardRow k lvl) (milestones k lvl)\<rparr>)"
    by (intro createRewards_all milestones_distinct) auto
  ultimately show ?thesis by (simp add: processMilestoneRewards_def Let_def)
qed

lemma levelUpLoop_raised:
  "levelUpLoop e l b = (e', l', b') \<Longrightarrow> l \<le> l' \<and> (l < l' \<or> b \<longrightarrow> b')"
proof (induction e l b rule: levelUpLoop.induct)
  case (1 e l b)
  show ?case
  proof (cases "nextLevelXp (getRemainingXp e)")
    case Infinity
    with "1.prems" show ?thesis by (subst (asm) levelUpLoop.simps) simp
  next
    case (Finite n)
    show ?thesis
    proof (cases "n \<le> e")
      case True
      with Finite "1.prems" have "levelUpLoop (e - n) (l + 1) True = (e', l', b')"
        by (subst (asm) levelUpLoop.simps) simp
      from "1.IH" [OF Finite True this] show ?thesis by auto
    next
      case False
      with Finite "1.prems" show ?thesis by (subst (asm) levelUpLoop.simps) simp
    qed
  qed
qed

lemma processMilestoneRewards_user:
  "getUserById (snd (processMilestoneRewards db k lvl)) j = getUserById db j"
  using processMilestoneRewards_stored [of k lvl db] by auto

lemma addExperience_stored:
  assumes "getUserById db k = Some u"
  shows "\<exists>u1 db1. getUserById db1 k = Some u1
           \<and> milestoneRewardTable db1 = milestoneRewardTable db
           \<and> getUserById (snd (addExperience now avgLevel db k baseAmount zoneId)) k = Some u1
           \<and> (level u < level u1 \<longrightarrow>
                snd (addExperience now avgLevel db k baseAmount zoneId)
                  = snd (processMilestoneRewards db1 k (level u1)))"
proof -
  let ?m = "getCurrentXpMultipliers now avgLevel db k"
  let ?a = "\<lceil>baseAmount * totalMultiplier ?m\<rceil>"
  obtain e l b where loop: "levelUpLoop (experience u + ?a) (level u) False = (e, l, b)"
    using prod_cases3 by blast
  let ?f = "\<lambda>x. x\<lparr>level := l, experience := e,
                   totalLifetimeExperience := totalLifetimeExperience u + ?a\<rparr>"
  let ?u1 = "(?f u)\<lparr>updatedAt := now\<rparr>"
  have "uid (?f u) = k" using assms getUserById_uid [of db k u] by simp
  with assms user_update_found [of db k u ?f now]
  obtain db1 where upd: "user_update now k ?f db = (Inr ?u1, db1)"
    and g: "getUserById db1 k = Some ?u1"
    and tab: "milestoneRewardTable db1 = milestoneRewardTable db" by blast
  have s: "snd (addExperience now avgLevel db k baseAmount zoneId)
      = (if b then snd (processMilestoneRewards db1 k l) else db1)"
    using assms loop upd
    by (auto simp: addExperience_def Let_def split: prod.splits sum.splits)
  have g2: "getUserById (snd (addExperience now avgLevel db k baseAmount zoneId)) k = Some ?u1"
    using s g by (simp add: processMilestoneRewards_user)
  have "level u < l \<longrightarrow> b" using levelUpLoop_raised [OF loop] by simp
  with s have "level u < level ?u1 \<longrightarrow>
                snd (addExperience now avgLevel db k baseAmount zoneId)
                  = snd (processMilestoneRewards db1 k (level ?u1))"
    by simp
  with g tab g2 show ?thesis by blast
qed

text \<open>
  C4, as stated, fails: a grant that takes a player from level 49 to level 50 stores three
  rows for the one pair of player and level, one for each reward of level 50.
\<close>

theorem addExperience_level_50_counterexample:
  "length (filter (\<lambda>r. userId r = ''u'' \<and> rewardLevel r = 50)
     (milestoneRewardTable (snd (addExperience 0 1
        \<lparr>userTable = [\<lparr>uid = ''u'', level = 49, experience = 0, currentEnergy = 100,
                       maxEnergy = 100, updatedAt = 0, prestigeLevel = 0, prestigePoints = 0,
                       totalLifetimeExperience = 0\<rparr>],
         milestoneRewardTable = [], xpMultiplierEventTable = [],
         userEnergyStateTable = []\<rparr> ''u'' 172 None)))) = 3"
  by code_simp

text \<open>
  C4, amended. At most one row exists per reward id, not per pair of player and level.
  \<open>processMilestoneRewards\<close> for a player and a level appends only rows of the rewards
  configured for that level (three at level 50, one at levels 5, 10 and 25, none at any
  other level), each at most once, and keeps the ids of the table distinct. When the player
  exists and no row of the table has the player and level or one of those ids, it stores
  exactly one row per configured reward; a grant that raises the stored level to such a
  level leaves exactly these rows for the player and the new level. Whether the first call
  succeeded or failed, running it again for the same player and level stores nothing
  further.
\<close>

theorem milestone_rewards_once_per_reward:
  "snd (processMilestoneRewards (snd (processMilestoneRewards db k lvl)) k lvl)
     = snd (processMilestoneRewards db k lvl)
   \<and> (distinct (map reward_id (milestoneRewardTable db)) \<longrightarrow>
        distinct (map reward_id (milestoneRewardTable (snd (processMilestoneRewards db k lvl)))))
   \<and> (\<exists>n \<le> length (milestones k lvl).
        milestoneRewardTable (snd (processMilestoneRewards db k lvl))
          = milestoneRewardTable db @ map (rewardRow k lvl) (take n (milestones k lvl)))
   \<and> length (milestones k lvl) = (if lvl = 50 then 3 else if lvl \<in> {5, 10, 25} then 1 else 0)
   \<and> (getUserById db k \<noteq> None
        \<and> (\<forall>r \<in> set (milestoneRewardTable db).
              \<not> (userId r = k \<and> rewardLevel r = lvl)
              \<and> reward_id r \<notin> reward_id ` set (milestones k lvl)) \<longrightarrow>
        processMilestoneRewards db k lvl
          = (Inr (milestones k lvl),
             db\<lparr>milestoneRewardTable :=
                   milestoneRewardTable db @ map (rewardRow k lvl) (milestones k lvl)\<rparr>))
   \<and> (\<forall>u u'. getUserById db k = Some u
        \<and> getUserById (snd (addExperience now avgLevel db k baseAmount zoneId)) k = Some u'
        \<and> level u < level u'
        \<and> (\<forall>r \<in> set (milestoneRewardTable db).
              \<not> (userId r = k \<and> rewardLevel r = level u')
              \<and> reward_id r \<notin> reward_id ` set (milestones k (level u'))) \<longrightarrow>
        filter (\<lambda>r. userId r = k \<and> rewardLevel r = level u')
          (milestoneRewardTable (snd (addExperience now avgLevel db k baseAmount zoneId)))
          = map (rewardRow k (level u')) (milestones k (level u')))"
proof (intro conjI allI impI)
  show "snd (processMilestoneRewards (snd (processMilestoneRewards db k lvl)) k lvl)
     = snd (processMilestoneRewards db k lvl)"
    by (rule processMilestoneRewards_again)
next
  assume "distinct (map reward_id (milestoneRewardTable db))"
  then show "distinct (map reward_id (milestoneRewardTable (snd (processMilestoneRewards db k lvl))))"
    using processMilestoneRewards_stored [of k lvl db] by blast
next
  from processMilestoneRewards_stored [of k lvl db] obtain n where
    "n \<le> length (milestones k lvl)" and
    "snd (processMilestoneRewards db k lvl)
       = db\<lparr>milestoneRewardTable :=
              milestoneRewardTable db @ map (rewardRow k lvl) (take n (milestones k lvl))\<rparr>"
    by blast
  then have "n \<le> length (milestones k lvl) \<and>
        milestoneRewardTable (snd (processMilestoneRewards db k lvl))
          = milestoneRewardTable db @ map (rewardRow k lvl) (take n (milestones k lvl))"
    by simp
  then show "\<exists>n \<le> length (milestones k lvl).
        milestoneRewardTable (snd (processMilestoneRewards db k lvl))
          = milestoneRewardTable db @ map (rewardRow k lvl) (take n (milestones k lvl))"
    by blast
next
  show "length (milestones k lvl) = (if lvl = 50 then 3 else if lvl \<in> {5, 10, 25} then 1 else 0)"
    by (rule milestones_length)
next
  assume "getUserById db k \<noteq> None
        \<and> (\<forall>r \<in> set (milestoneRewardTable db).
              \<not> (userId r = k \<and> rewardLevel r = lvl)
              \<and> reward_id r \<notin> reward_id ` set (milestones k lvl))"
  then show "processMilestoneRewards db k lvl
          = (Inr (milestones k lvl),
             db\<lparr>milestoneRewardTable :=
                   milestoneRewardTable db @ map (rewardRow k lvl) (milestones k lvl)\<rparr>)"
    by (intro processMilestoneRewards_first) auto
next
  fix u u'
  let ?db' = "snd (addExperience now avgLevel db k baseAmount zoneId)"
  assume a: "getUserById db k = Some u
        \<and> getUserById ?db' k = Some u'
        \<and> level u < level u'
        \<and> (\<forall>r \<in> set (milestoneRewardTable db).
              \<not> (userId r = k \<and> rewardLevel r = level u')
              \<and> reward_id r \<notin> reward_id ` set (milestones k (level u')))"
  from addExperience_stored [of db k u now avgLevel baseAmount zoneId] a
  obtain db1 where g: "getUserById db1 k = Some u'"
    and tab: "milestoneRewardTable db1 = milestoneRewardTable db"
    and s: "?db' = snd (processMilestoneRewards db1 k (level u'))"
    by auto
  from a tab g have "processMilestoneRewards db1 k (level u')
          = (Inr (milestones k (level u')),
             db1\<lparr>milestoneRewardTable :=
                   milestoneRewardTable db1 @ map (rewardRow k (level u')) (milestones k (level u'))\<rparr>)"
    by (intro processMilestoneRewards_first) auto
  with s tab have t: "milestoneRewardTable ?db'
      = milestoneRewardTable db @ map (rewardRow k (level u')) (milestones k (level u'))"
    by simp
  from a have "filter (\<lambda>r. userId r = k \<and> rewardLevel r = level u') (milestoneRewardTable db) = []"
    by (auto simp: filter_empty_conv)
  then show "filter (\<lambda>r. userId r = k \<and> rewardLevel r = level u') (milestoneRewardTable ?db')
          = map (rewardRow k (level u')) (milestones k (level u'))"
    by (subst t) (simp add: filter_rewardRow_level)
qed

theorem milestone_rewards_once_per_reward_witness:
  "(let u = \<lparr>uid = ''u'', level = 4, experience = 0, currentEnergy = 100,
             maxEnergy = 100, updatedAt = 0, prestigeLevel = 0, prestigePoints = 0,
             totalLifetimeExperience = 0\<rparr>;
        db = \<lparr>userTable = [u], milestoneRewardTable = [], xpMultiplierEventTable = [],
              userEnergyStateTable = []\<rparr>;
        db' = snd (addExperience 0 1 db ''u'' 172 None)
    in getUserById db ''u'' = Some u
     \<and> getUserById db' ''u''
         = Some (u\<lparr>level := 5, experience := 52, totalLifetimeExperience := 172\<rparr>)
     \<and> filter (\<lambda>r. userId r = ''u'' \<and> rewardLevel r = 5) (milestoneRewardTable db')
         = map (rewardRow ''u'' 5) (milestones ''u'' 5)
     \<and> length (milestones ''u'' 5) = 1
     \<and> processMilestoneRewards db ''u'' 5
         = (Inr (milestones ''u'' 5),
            db\<lparr>milestoneRewardTable := map (rewardRow ''u'' 5) (milestones ''u'' 5)\<rparr>)
     \<and> snd (processMilestoneRewards (snd (processMilestoneRewards db ''u'' 5)) ''u'' 5)
         = snd (processMilestoneRewards db ''u'' 5))"
proof -
  let ?u = "\<lparr>uid = ''u'', level = 4, experience = 0, currentEnergy = 100,
             maxEnergy = 100, updatedAt = 0, prestigeLevel = 0, prestigePoints = 0,
             totalLifetimeExperience = 0\<rparr>"
  let ?db = "\<lparr>userTable = [?u], milestoneRewardTable = [], xpMultiplierEventTable = [],
              userEnergyStateTable = []\<rparr>"
  let ?db' = "snd (addExperience 0 1 ?db ''u'' 172 None)"
  let ?u' = "?u\<lparr>level := 5, experience := 52, totalLifetimeExperience := 172\<rparr>"
  note t = milestone_rewards_once_per_reward [of ?db "''u''" 5 0 1 172 None]
  have f: "getUserById ?db ''u'' = Some ?u" by (simp add: getUserById_def)
  have g: "getUserById ?db' ''u'' = Some ?u'" by code_simp
  have lt: "level ?u < level ?u'" by simp
  have e: "\<forall>r \<in> set (milestoneRewardTable ?db).
              \<not> (userId r = ''u'' \<and> rewardLevel r = level ?u')
              \<and> reward_id r \<notin> reward_id ` set (milestones ''u'' (level ?u'))"
    by simp
  from t f g lt e
  have a: "filter (\<lambda>r. userId r = ''u'' \<and> rewardLevel r = level ?u') (milestoneRewardTable ?db')
         = map (rewardRow ''u'' (level ?u')) (milestones ''u'' (level ?u'))"
    by blast
  from t have b: "length (milestones ''u'' 5) = 1" by simp
  from t f have c: "processMilestoneRewards ?db ''u'' 5
         = (Inr (milestones ''u'' 5),
            ?db\<lparr>milestoneRewardTable := map (rewardRow ''u'' 5) (milestones ''u'' 5)\<rparr>)"
    by simp
  from t have d: "snd (processMilestoneRewards (snd (processMilestoneRewards ?db ''u'' 5)) ''u'' 5)
         = snd (processMilestoneRewards ?db ''u'' 5)"
    by blast
  from f g a b c d show ?thesis by (simp add: Let_def)
qed


end
